theory Spec2Isabelle
  imports Main "HOL-Library.AList"
begin

section \<open>Values, streams and messages\<close>

text \<open>
  The values a broadcast carries (\<^verbatim>\<open>Broadcastable\<close>: objects, strings, numbers,
  booleans, null, arrays) together with \<^verbatim>\<open>undefined\<close>, the value of an omitted
  optional argument. Numbers are kept as integers plus \<^verbatim>\<open>NaN\<close>: the code only ever
  tests a number for falsiness, and the falsy numbers are zero and \<^verbatim>\<open>NaN\<close>.
\<close>

datatype jsval =
    JUndefined
  | JNull
  | JBool bool
  | JNum int
  | JNaN
  | JStr string
  | JArr "jsval list"
  | JObj "(string \<times> jsval) list"

text \<open>JavaScript truthiness, as tested by \<^verbatim>\<open>!v\<close> and \<^verbatim>\<open>if (v)\<close>.\<close>

fun truthy :: "jsval \<Rightarrow> bool" where
  "truthy JUndefined = False"
| "truthy JNull = False"
| "truthy (JBool b) = b"
| "truthy (JNum n) = (n \<noteq> 0)"
| "truthy JNaN = False"
| "truthy (JStr s) = (s \<noteq> [])"
| "truthy (JArr xs) = True"
| "truthy (JObj kvs) = True"

text \<open>
  A \<^verbatim>\<open>Stream\<close> object: \<open>streamId\<close> stands for the identity of the JavaScript
  object (two streams built for the same uid are different objects), \<open>getUid\<close> is
  the uid handed to its constructor.
\<close>

datatype stream = Stream (streamId: nat) (getUid: string)

text \<open>The argument of \<^verbatim>\<open>writeMessage\<close>: \<^verbatim>\<open>{ data: { channel, payload } }\<close>.\<close>

record message =
  channel :: string
  payload :: jsval

text \<open>
  The connection context: \<open>inputUid\<close> is \<^verbatim>\<open>request.input('uid')\<close>
  (\<open>None\<close> when the request has no such field), \<open>ctxId\<close> tells contexts apart.
\<close>

record http_context =
  ctxId :: nat
  inputUid :: "string option"

text \<open>\<^verbatim>\<open>TransmitMessage\<close>, the tagged union exchanged on the bus.\<close>

datatype transmit_message =
    Broadcast string jsval
  | Subscribe string string
  | Unsubscribe string string

text \<open>\<^verbatim>\<open>TransmitLifecycleHooks\<close>: the five events and what each carries.\<close>

datatype lifecycle_event =
    EvConnect string http_context
  | EvDisconnect string http_context
  | EvBroadcast string jsval
  | EvSubscribe string string http_context
  | EvUnsubscribe string string http_context

section \<open>The stream and channel repository\<close>

text \<open>
  Modelled from the spec: the class \<^verbatim>\<open>StreamChannelRepository\<close>
  (\<^verbatim>\<open>./stream_channel_repository.js\<close>) is imported by the source and not part of it.
  The spec keeps two indices that agree: client to set of channels, and channel to set of
  streams. \<open>clientIndex\<close> holds one entry per registered uid, the stream and its
  channels; \<open>channelIndex\<close> holds the subscribers of each channel.
\<close>

record registry =
  clientIndex :: "(stream \<times> string list) list"
  channelIndex :: "(string \<times> stream list) list"

text \<open>Modelled from the spec: the repository the constructor builds, with no stream.\<close>

definition emptyRegistry :: registry where
  "emptyRegistry = \<lparr>clientIndex = [], channelIndex = []\<rparr>"

text \<open>
  Modelled from the spec: adding to one of the sets the indices hold. A set is kept as a
  list without repetition, in the order of insertion.
\<close>

definition setAdd :: "'a list \<Rightarrow> 'a \<Rightarrow> 'a list" where
  "setAdd xs x = (if x \<in> set xs then xs else xs @ [x])"

text \<open>Modelled from the spec: the stream registered for a uid, with its channels.\<close>

definition getStreamByUid :: "registry \<Rightarrow> string \<Rightarrow> (stream \<times> string list) option" where
  "getStreamByUid r uid = find (\<lambda>e. getUid (fst e) = uid) (clientIndex r)"

text \<open>
  Modelled from the spec: \<^verbatim>\<open>findByChannel\<close>, all streams currently subscribed to a
  channel; empty if none.
\<close>

definition findByChannel :: "registry \<Rightarrow> string \<Rightarrow> stream list" where
  "findByChannel r ch = (case map_of (channelIndex r) ch of None \<Rightarrow> [] | Some ss \<Rightarrow> ss)"

text \<open>
  Modelled from the spec: \<^verbatim>\<open>getAllSubscribers\<close>, every registered stream with its
  channels.
\<close>

definition getAllSubscribers :: "registry \<Rightarrow> (stream \<times> string list) list" where
  "getAllSubscribers r = clientIndex r"

text \<open>
  Modelled from the spec: \<^verbatim>\<open>getChannelByClient\<close>, the channels of a client, or
  absent.
\<close>

definition getChannelByClient :: "registry \<Rightarrow> string \<Rightarrow> string list option" where
  "getChannelByClient r uid = map_option snd (getStreamByUid r uid)"

text \<open>
  Modelled from the spec: \<^verbatim>\<open>push\<close> registers a new stream keyed by uid, with no
  channel membership yet. The entry of the uid is the new stream's.
\<close>

definition push :: "registry \<Rightarrow> stream \<Rightarrow> registry" where
  "push r s =
     r\<lparr>clientIndex := filter (\<lambda>e. getUid (fst e) \<noteq> getUid s) (clientIndex r) @ [(s, [])]\<rparr>"

text \<open>
  Modelled from the spec: \<^verbatim>\<open>remove\<close> deletes the stream from the uid index and from
  every channel index it belonged to; removing an absent stream changes nothing it holds.
\<close>

definition remove :: "registry \<Rightarrow> stream \<Rightarrow> registry" where
  "remove r s =
     r\<lparr>clientIndex := filter (\<lambda>e. fst e \<noteq> s) (clientIndex r),
       channelIndex := map (\<lambda>(ch, ss). (ch, removeAll s ss)) (channelIndex r)\<rparr>"

text \<open>
  Modelled from the spec: \<^verbatim>\<open>addChannelToStream\<close> returns false if no stream is
  registered for the uid; otherwise it adds the channel to the client's set and the stream
  to the channel's set, and returns true.
\<close>

definition addChannelToStream :: "registry \<Rightarrow> string \<Rightarrow> string \<Rightarrow> bool \<times> registry" where
  "addChannelToStream r uid ch =
     (case getStreamByUid r uid of
        None \<Rightarrow> (False, r)
      | Some (s, chs) \<Rightarrow>
          (True,
           r\<lparr>clientIndex :=
                map (\<lambda>e. if getUid (fst e) = uid then (fst e, setAdd (snd e) ch) else e)
                  (clientIndex r),
              channelIndex :=
                AList.update ch (setAdd (findByChannel r ch) s) (channelIndex r)\<rparr>))"

text \<open>
  Modelled from the spec: \<^verbatim>\<open>removeChannelFromStream\<close>, the inverse; false if the
  client or the membership does not exist.
\<close>

definition removeChannelFromStream :: "registry \<Rightarrow> string \<Rightarrow> string \<Rightarrow> bool \<times> registry" where
  "removeChannelFromStream r uid ch =
     (case getStreamByUid r uid of
        None \<Rightarrow> (False, r)
      | Some (s, chs) \<Rightarrow>
          if ch \<in> set chs then
            (True,
             r\<lparr>clientIndex :=
                  map (\<lambda>e. if getUid (fst e) = uid then (fst e, removeAll ch (snd e)) else e)
                    (clientIndex r),
                channelIndex :=
                  AList.update ch (removeAll s (findByChannel r ch)) (channelIndex r)\<rparr>)
          else (False, r))"

section \<open>The secure channel store\<close>

text \<open>
  Modelled from the spec: the class \<^verbatim>\<open>SecureChannelStore\<close>
  (\<^verbatim>\<open>./secure_channel_store.js\<close>) is imported by the source and not part of it.
  The store is the list of registered patterns in registration order; a match yields the
  pattern (\<open>url\<close>) and the parameters bound by its \<^verbatim>\<open>:name\<close> segments.
\<close>

record channel_definition =
  url :: string
  params :: "(string \<times> string) list"

text \<open>Modelled from the spec: the segments of a path-style name, cut at a separator.\<close>

fun splitOn :: "char \<Rightarrow> string \<Rightarrow> string list" where
  "splitOn c [] = [[]]"
| "splitOn c (x # xs) =
     (if x = c then [] # splitOn c xs
      else (case splitOn c xs of [] \<Rightarrow> [[x]] | w # ws \<Rightarrow> (x # w) # ws))"

text \<open>
  Modelled from the spec: matching segment by segment. A pattern segment \<^verbatim>\<open>:name\<close>
  binds \<open>name\<close> to the channel's segment; any other segment must be equal to it.
\<close>

fun matchSegments :: "string list \<Rightarrow> string list \<Rightarrow> (string \<times> string) list option" where
  "matchSegments [] [] = Some []"
| "matchSegments (p # ps) (c # cs) =
     (case p of
        [] \<Rightarrow> (if c = [] then matchSegments ps cs else None)
      | x # name \<Rightarrow>
          if x = CHR '':'' then map_option (\<lambda>bs. (name, c) # bs) (matchSegments ps cs)
          else if p = c then matchSegments ps cs
          else None)"
| "matchSegments _ _ = None"

text \<open>Modelled from the spec: one pattern against one concrete channel name.\<close>

definition matchPattern :: "string \<Rightarrow> string \<Rightarrow> (string \<times> string) list option" where
  "matchPattern pattern ch = matchSegments (splitOn CHR ''/'' pattern) (splitOn CHR ''/'' ch)"

text \<open>Modelled from the spec: \<^verbatim>\<open>add\<close> registers a pattern for authorization.\<close>

definition add :: "string list \<Rightarrow> string \<Rightarrow> string list" where
  "add store pattern = store @ [pattern]"

text \<open>
  Modelled from the spec: \<^verbatim>\<open>match\<close> tests the concrete name against all registered
  patterns in registration order and returns the first match with parameters bound, or
  none.
\<close>

fun match :: "string list \<Rightarrow> string \<Rightarrow> channel_definition option" where
  "match [] ch = None"
| "match (p # ps) ch =
     (case matchPattern p ch of
        Some bs \<Rightarrow> Some \<lparr>url = p, params = bs\<rparr>
      | None \<Rightarrow> match ps ch)"

section \<open>The Transmit class\<close>

text \<open>
  An authorization callback \<^verbatim>\<open>(ctx, params) => Promise<boolean> | boolean\<close>: awaited,
  it either yields a value or raises (a rejected promise raises at the \<^verbatim>\<open>await\<close>).
\<close>

datatype callback_result = Returns jsval | Throws

type_synonym authorizer = "http_context \<Rightarrow> (string \<times> string) list \<Rightarrow> callback_result"

text \<open>\<^verbatim>\<open>TransmitConfig\<close>. \<open>pingInterval\<close> is a number of milliseconds or a duration
  string, \<open>None\<close> when it is left out or \<^verbatim>\<open>false\<close>. \<open>transportChannel\<close> is
  \<^verbatim>\<open>config.transport!.channel!\<close>: the source asserts both non-null wherever it reads
  them.\<close>

datatype duration = Millis int | DurationString string

record transmit_config =
  pingInterval :: "duration option"
  transportChannel :: string

fun truthyDuration :: "duration \<Rightarrow> bool" where
  "truthyDuration (Millis n) = (n \<noteq> 0)"
| "truthyDuration (DurationString s) = (s \<noteq> [])"

datatype transport = Transport string

datatype bus = Bus transport

datatype error = Error string

text \<open>
  Every call the class makes on a collaborator (a stream, the bus, the event emitter, the
  response, an authorization callback, the timers), in the order the calls are made.
\<close>

datatype effect =
    Emit lifecycle_event
  | Publish string transmit_message
  | WriteMessage stream message
  | CallbackCall string http_context "(string \<times> string) list"
  | Forbidden http_context
  | InternalServerError http_context
  | Pipe stream http_context
  | OnClose http_context stream
  | ResponseStream http_context stream
  | BusSubscribe string
  | SetInterval int
  | ClearInterval
  | BusDisconnect

text \<open>
  The private fields of the class. \<open>allocated\<close> counts the \<^verbatim>\<open>Stream\<close> objects
  built so far and gives the next one its identity; \<open>effects\<close> is the trace of calls
  on collaborators.
\<close>

record transmit =
  storage :: registry
  secureChannelStore :: "string list"
  secureChannelCallbacks :: "(string \<times> authorizer) list"
  bus :: "bus option"
  config :: transmit_config
  interval :: "int option"
  allocated :: nat
  effects :: "effect list"

text \<open>\<^verbatim>\<open>senderUid?: string | string[]\<close>.\<close>

datatype sender = NoSender | SenderUid string | SenderUids "string list"

definition emit :: "transmit \<Rightarrow> lifecycle_event \<Rightarrow> transmit" where
  "emit st ev = st\<lparr>effects := effects st @ [Emit ev]\<rparr>"

text \<open>\<^verbatim>\<open>void this.#bus?.publish(this.#config.transport!.channel!, message)\<close>.\<close>

definition publish :: "transmit \<Rightarrow> transmit_message \<Rightarrow> transmit" where
  "publish st m =
     (case bus st of
        None \<Rightarrow> st
      | Some b \<Rightarrow> st\<lparr>effects := effects st @ [Publish (transportChannel (config st)) m]\<rparr>)"

definition writeMessage :: "stream \<Rightarrow> message \<Rightarrow> transmit \<Rightarrow> transmit" where
  "writeMessage s m st = st\<lparr>effects := effects st @ [WriteMessage s m]\<rparr>"

text \<open>The test of the loop in \<^verbatim>\<open>#broadcastLocally\<close> that skips a subscriber.\<close>

definition isSender :: "sender \<Rightarrow> stream \<Rightarrow> bool" where
  "isSender sd s =
     (case sd of
        SenderUids us \<Rightarrow> getUid s \<in> set us
      | SenderUid u \<Rightarrow> u = getUid s
      | NoSender \<Rightarrow> False)"

fun broadcastLoop :: "stream list \<Rightarrow> string \<Rightarrow> jsval \<Rightarrow> sender \<Rightarrow> transmit \<Rightarrow> transmit" where
  "broadcastLoop [] ch p sd st = st"
| "broadcastLoop (s # ss) ch p sd st =
     (if isSender sd s then broadcastLoop ss ch p sd st
      else broadcastLoop ss ch p sd (writeMessage s \<lparr>channel = ch, payload = p\<rparr> st))"

definition broadcastLocally :: "transmit \<Rightarrow> string \<Rightarrow> jsval \<Rightarrow> sender \<Rightarrow> transmit" where
  "broadcastLocally st ch p sd = broadcastLoop (findByChannel (storage st) ch) ch p sd st"

definition broadcastExcept :: "transmit \<Rightarrow> string \<Rightarrow> jsval \<Rightarrow> sender \<Rightarrow> transmit" where
  "broadcastExcept st ch p sd = broadcastLocally st ch p sd"

definition broadcast :: "transmit \<Rightarrow> string \<Rightarrow> jsval \<Rightarrow> transmit" where
  "broadcast st ch p =
     (let p' = (if \<not> truthy p then JObj [] else p);
          st1 = publish st (Broadcast ch p');
          st2 = broadcastLocally st1 ch p' NoSender
      in emit st2 (EvBroadcast ch p'))"

definition pingMessage :: message where
  "pingMessage = \<lparr>channel = ''$$transmit/ping'', payload = JObj []\<rparr>"

fun pingLoop :: "(stream \<times> string list) list \<Rightarrow> transmit \<Rightarrow> transmit" where
  "pingLoop [] st = st"
| "pingLoop (e # es) st = pingLoop es (writeMessage (fst e) pingMessage st)"

definition ping :: "transmit \<Rightarrow> transmit" where
  "ping st = pingLoop (getAllSubscribers (storage st)) st"

text \<open>The error raised by \<^verbatim>\<open>$createStream\<close>.\<close>

definition missingUid :: error where
  \<open>missingUid = Error ''Missing required field "uid" in the request body''\<close>

text \<open>
  \<^verbatim>\<open>$createStream\<close>. The test \<^verbatim>\<open>!request.input('uid')\<close> holds when the field is
  absent and when it is the empty string. The result pairs what the call returns or raises
  with the state it leaves.
\<close>

definition createStream :: "transmit \<Rightarrow> http_context \<Rightarrow> (error + stream) \<times> transmit" where
  "createStream st ctx =
     (case inputUid ctx of
        None \<Rightarrow> (Inl missingUid, st)
      | Some u \<Rightarrow>
          if u = [] then (Inl missingUid, st)
          else
            (let stream = Stream (allocated st) u;
                 st1 = st\<lparr>allocated := Suc (allocated st),
                          effects := effects st @ [Pipe stream ctx]\<rparr>;
                 st2 = emit st1 (EvConnect (getUid stream) ctx);
                 st3 = st2\<lparr>storage := push (storage st2) stream\<rparr>;
                 st4 = st3\<lparr>effects := effects st3 @ [OnClose ctx stream, ResponseStream ctx stream]\<rparr>
             in (Inr stream, st4)))"

text \<open>The listener \<^verbatim>\<open>$createStream\<close> attaches to the response's \<^verbatim>\<open>close\<close> event.\<close>

definition onClose :: "transmit \<Rightarrow> http_context \<Rightarrow> stream \<Rightarrow> transmit" where
  "onClose st ctx stream =
     (let st1 = emit st (EvDisconnect (getUid stream) ctx)
      in st1\<lparr>storage := remove (storage st1) stream\<rparr>)"

definition authorizeChannel :: "transmit \<Rightarrow> string \<Rightarrow> authorizer \<Rightarrow> transmit" where
  "authorizeChannel st ch callback =
     st\<lparr>secureChannelStore := add (secureChannelStore st) ch,
        secureChannelCallbacks := AList.update ch callback (secureChannelCallbacks st)\<rparr>"

definition getClients :: "transmit \<Rightarrow> string list" where
  "getClients st = map (\<lambda>e. getUid (fst e)) (getAllSubscribers (storage st))"

definition getSubscriptionsForClient :: "transmit \<Rightarrow> string \<Rightarrow> string list" where
  "getSubscriptionsForClient st uid =
     (case getChannelByClient (storage st) uid of None \<Rightarrow> [] | Some chs \<Rightarrow> chs)"

text \<open>
  The end of \<^verbatim>\<open>$subscribeToChannel\<close>, reached when the channel is public or its
  callback allowed the subscription: emit, publish, then ask the repository.
\<close>

definition subscribeAllowed :: "transmit \<Rightarrow> string \<Rightarrow> string \<Rightarrow> http_context \<Rightarrow> bool \<times> transmit" where
  "subscribeAllowed st uid ch ctx =
     (let st1 = emit st (EvSubscribe uid ch ctx);
          st2 = publish st1 (Subscribe ch uid);
          res = addChannelToStream (storage st2) uid ch
      in (fst res, st2\<lparr>storage := snd res\<rparr>))"

text \<open>
  \<^verbatim>\<open>$subscribeToChannel\<close>. The method is asynchronous only in that it awaits the
  callback; the model runs it in one step, the callback being a function of the context and
  the parameters. The \<^verbatim>\<open>try\<close> block encloses the callback's call and catches
  whatever it raises, so the method has no raising branch and its result is a boolean.
\<close>

definition subscribeToChannel :: "transmit \<Rightarrow> string \<Rightarrow> string \<Rightarrow> http_context \<Rightarrow> bool \<times> transmit" where
  "subscribeToChannel st uid ch ctx =
     (case match (secureChannelStore st) ch of
        None \<Rightarrow> subscribeAllowed st uid ch ctx
      | Some definitions \<Rightarrow>
          (case map_of (secureChannelCallbacks st) (url definitions) of
             None \<Rightarrow> (False, st)
           | Some callback \<Rightarrow>
               (let st1 = st\<lparr>effects := effects st @
                             [CallbackCall (url definitions) ctx (params definitions)]\<rparr>
                in case callback ctx (params definitions) of
                     Throws \<Rightarrow> (False, st1\<lparr>effects := effects st1 @ [InternalServerError ctx]\<rparr>)
                   | Returns result \<Rightarrow>
                       if \<not> truthy result
                       then (False, st1\<lparr>effects := effects st1 @ [Forbidden ctx]\<rparr>)
                       else subscribeAllowed st1 uid ch ctx)))"

definition unsubscribeFromChannel :: "transmit \<Rightarrow> string \<Rightarrow> string \<Rightarrow> http_context \<Rightarrow> bool \<times> transmit" where
  "unsubscribeFromChannel st uid ch ctx =
     (let st1 = emit st (EvUnsubscribe uid ch ctx);
          st2 = publish st1 (Unsubscribe ch uid);
          res = removeChannelFromStream (storage st2) uid ch
      in (fst res, st2\<lparr>storage := snd res\<rparr>))"

text \<open>The handler the constructor subscribes on the bus's synchronization channel.\<close>

definition onBusMessage :: "transmit \<Rightarrow> transmit_message \<Rightarrow> transmit" where
  "onBusMessage st message =
     (case message of
        Broadcast ch p \<Rightarrow> broadcastLocally st ch p NoSender
      | Subscribe ch uid \<Rightarrow> st\<lparr>storage := snd (addChannelToStream (storage st) uid ch)\<rparr>
      | Unsubscribe ch uid \<Rightarrow> st\<lparr>storage := snd (removeChannelFromStream (storage st) uid ch)\<rparr>)"

text \<open>
  The constructor. \<open>parseMs\<close> is \<^verbatim>\<open>string.milliseconds.parse\<close> of the utilities
  package, which the source imports.
\<close>

definition newTransmit :: "(string \<Rightarrow> int) \<Rightarrow> transmit_config \<Rightarrow> transport option \<Rightarrow> transmit" where
  "newTransmit parseMs cfg tr =
     (let b = map_option Bus tr;
          subscribed = (case b of None \<Rightarrow> [] | Some _ \<Rightarrow> [BusSubscribe (transportChannel cfg)]);
          timer =
            (case pingInterval cfg of
               None \<Rightarrow> None
             | Some d \<Rightarrow>
                 if truthyDuration d
                 then Some (case d of Millis n \<Rightarrow> n | DurationString s \<Rightarrow> parseMs s)
                 else None)
      in \<lparr>storage = emptyRegistry,
          secureChannelStore = [],
          secureChannelCallbacks = [],
          bus = b,
          config = cfg,
          interval = timer,
          allocated = 0,
          effects = subscribed @ (case timer of None \<Rightarrow> [] | Some n \<Rightarrow> [SetInterval n])\<rparr>)"

text \<open>
  What the timer set by the constructor does when it fires: it calls \<^verbatim>\<open>#ping\<close>.
  Without a timer there is nothing to fire.
\<close>

definition heartbeat :: "transmit \<Rightarrow> transmit option" where
  "heartbeat st = (case interval st of None \<Rightarrow> None | Some n \<Rightarrow> Some (ping st))"

definition shutdown :: "transmit \<Rightarrow> transmit" where
  "shutdown st =
     (let st1 = (case interval st of
                   None \<Rightarrow> st
                 | Some n \<Rightarrow> st\<lparr>effects := effects st @ [ClearInterval]\<rparr>)
      in case bus st1 of
           None \<Rightarrow> st1
         | Some b \<Rightarrow> st1\<lparr>effects := effects st1 @ [BusDisconnect]\<rparr>)"

section \<open>Observing the trace\<close>

text \<open>The messages written to streams, in order.\<close>

fun writesOf :: "effect list \<Rightarrow> (stream \<times> message) list" where
  "writesOf [] = []"
| "writesOf (WriteMessage s m # es) = (s, m) # writesOf es"
| "writesOf (e # es) = writesOf es"

text \<open>The messages published on the bus, each with the bus channel it went to.\<close>

fun publishedOf :: "effect list \<Rightarrow> (string \<times> transmit_message) list" where
  "publishedOf [] = []"
| "publishedOf (Publish c m # es) = (c, m) # publishedOf es"
| "publishedOf (e # es) = publishedOf es"

text \<open>Every call that is not a write to a stream.\<close>

fun otherThanWrites :: "effect list \<Rightarrow> effect list" where
  "otherThanWrites [] = []"
| "otherThanWrites (WriteMessage s m # es) = otherThanWrites es"
| "otherThanWrites (e # es) = e # otherThanWrites es"

text \<open>What \<^verbatim>\<open>this.#bus?.publish\<close> adds to the trace.\<close>

definition published :: "transmit \<Rightarrow> transmit_message \<Rightarrow> effect list" where
  "published st m =
     (case bus st of None \<Rightarrow> [] | Some b \<Rightarrow> [Publish (transportChannel (config st)) m])"

section \<open>Example states\<close>

definition ctxA :: http_context where
  "ctxA = \<lparr>ctxId = 1, inputUid = Some ''a1''\<rparr>"

definition ctxB :: http_context where
  "ctxB = \<lparr>ctxId = 2, inputUid = Some ''b2''\<rparr>"

definition exampleConfig :: transmit_config where
  "exampleConfig = \<lparr>pingInterval = Some (Millis 30000), transportChannel = ''transmit::broadcast''\<rparr>"

text \<open>
  An instance on a bus: clients \<open>a1\<close> and \<open>b2\<close> have connected and subscribed to
  \<open>room/1\<close>.
\<close>

definition exampleRoom :: transmit where
  "exampleRoom =
     (let t0 = newTransmit (\<lambda>s. 0) exampleConfig (Some (Transport ''redis''));
          t1 = snd (createStream t0 ctxA);
          t2 = snd (createStream t1 ctxB);
          t3 = snd (subscribeToChannel t2 ''a1'' ''room/1'' ctxA)
      in snd (subscribeToChannel t3 ''b2'' ''room/1'' ctxB))"

text \<open>A callback that refuses room 42 and one that raises.\<close>

definition refuse42 :: authorizer where
  "refuse42 ctx ps = Returns (JBool (map_of ps ''id'' \<noteq> Some ''42''))"

definition failing :: authorizer where
  "failing ctx ps = Throws"

definition exampleSecured :: transmit where
  "exampleSecured =
     authorizeChannel (authorizeChannel exampleRoom ''chat/:id'' refuse42) ''admin/:area'' failing"

text \<open>The same instance with a secured pattern whose callback is not stored.\<close>

definition exampleNoCallback :: transmit where
  "exampleNoCallback = exampleRoom\<lparr>secureChannelStore := [''vault/:id'']\<rparr>"

section \<open>Lemmas about the trace and the loops\<close>

lemma writesOf_append: "writesOf (xs @ ys) = writesOf xs @ writesOf ys"
  by (induction xs rule: writesOf.induct) simp_all

lemma publishedOf_append: "publishedOf (xs @ ys) = publishedOf xs @ publishedOf ys"
  by (induction xs rule: publishedOf.induct) simp_all

lemma otherThanWrites_append: "otherThanWrites (xs @ ys) = otherThanWrites xs @ otherThanWrites ys"
  by (induction xs rule: otherThanWrites.induct) simp_all

lemma writesOf_writes: "writesOf (map (\<lambda>s. WriteMessage s m) ss) = map (\<lambda>s. (s, m)) ss"
  by (induction ss) simp_all

lemma publishedOf_writes: "publishedOf (map (\<lambda>s. WriteMessage s m) ss) = []"
  by (induction ss) simp_all

lemma otherThanWrites_writes: "otherThanWrites (map (\<lambda>s. WriteMessage s m) ss) = []"
  by (induction ss) simp_all

lemma writesOf_published: "writesOf (published st m) = []"
  by (simp add: published_def split: option.split)

lemma publish_eq: "publish st m = st\<lparr>effects := effects st @ published st m\<rparr>"
  by (simp add: publish_def published_def split: option.split)

lemma broadcastLoop_eq:
  "broadcastLoop ss ch p sd st =
     st\<lparr>effects := effects st @
          map (\<lambda>s. WriteMessage s \<lparr>channel = ch, payload = p\<rparr>) (filter (\<lambda>s. \<not> isSender sd s) ss)\<rparr>"
  by (induction ss arbitrary: st) (simp_all add: writeMessage_def)

lemma broadcastLocally_eq:
  "broadcastLocally st ch p sd =
     st\<lparr>effects := effects st @
          map (\<lambda>s. WriteMessage s \<lparr>channel = ch, payload = p\<rparr>)
            (filter (\<lambda>s. \<not> isSender sd s) (findByChannel (storage st) ch))\<rparr>"
  by (simp add: broadcastLocally_def broadcastLoop_eq)

lemma broadcast_eq:
  "broadcast st ch p =
     st\<lparr>effects := effects st @ published st (Broadcast ch (if truthy p then p else JObj [])) @
          map (\<lambda>s. WriteMessage s \<lparr>channel = ch, payload = (if truthy p then p else JObj [])\<rparr>)
            (findByChannel (storage st) ch) @
          [Emit (EvBroadcast ch (if truthy p then p else JObj []))]\<rparr>"
  by (simp add: broadcast_def Let_def publish_eq broadcastLocally_eq emit_def isSender_def published_def)

lemma pingLoop_eq:
  "pingLoop es st = st\<lparr>effects := effects st @ map (\<lambda>e. WriteMessage (fst e) pingMessage) es\<rparr>"
  by (induction es arbitrary: st) (simp_all add: writeMessage_def)

lemma getStreamByUid_unregistered:
  "uid \<notin> set (getClients st) \<Longrightarrow> getStreamByUid (storage st) uid = None"
  by (force simp add: getClients_def getAllSubscribers_def getStreamByUid_def find_None_iff)

lemma subscribeAllowed_eq:
  "subscribeAllowed st uid ch ctx =
     (fst (addChannelToStream (storage st) uid ch),
      st\<lparr>effects := effects st @ Emit (EvSubscribe uid ch ctx) # published st (Subscribe ch uid),
         storage := snd (addChannelToStream (storage st) uid ch)\<rparr>)"
  by (simp add: subscribeAllowed_def Let_def emit_def publish_eq published_def split: option.split)

lemma unsubscribeFromChannel_eq:
  "unsubscribeFromChannel st uid ch ctx =
     (fst (removeChannelFromStream (storage st) uid ch),
      st\<lparr>effects := effects st @ Emit (EvUnsubscribe uid ch ctx) # published st (Unsubscribe ch uid),
         storage := snd (removeChannelFromStream (storage st) uid ch)\<rparr>)"
  by (simp add: unsubscribeFromChannel_def Let_def emit_def publish_eq published_def split: option.split)


lemma ping_eq:
  "ping st = st\<lparr>effects := effects st @
       map (\<lambda>e. WriteMessage (fst e) pingMessage) (getAllSubscribers (storage st))\<rparr>"
  by (simp add: ping_def pingLoop_eq)

lemma writesOf_pings: "writesOf (map (\<lambda>e. WriteMessage (fst e) m) es) = map (\<lambda>e. (fst e, m)) es"
  by (induction es) simp_all

lemma exampleRoom_storage:
  "storage exampleRoom =
     \<lparr>clientIndex = [(Stream 0 ''a1'', [''room/1'']), (Stream 1 ''b2'', [''room/1''])],
      channelIndex = [(''room/1'', [Stream 0 ''a1'', Stream 1 ''b2''])]\<rparr>"
  by (simp add: exampleRoom_def newTransmit_def exampleConfig_def createStream_def ctxA_def ctxB_def
      subscribeToChannel_def subscribeAllowed_def emit_def publish_def addChannelToStream_def
      getStreamByUid_def push_def emptyRegistry_def findByChannel_def Let_def setAdd_def)

lemma exampleRoom_effects:
  "effects exampleRoom =
     [BusSubscribe ''transmit::broadcast'', SetInterval 30000,
      Pipe (Stream 0 ''a1'') ctxA, Emit (EvConnect ''a1'' ctxA),
      OnClose ctxA (Stream 0 ''a1''), ResponseStream ctxA (Stream 0 ''a1''),
      Pipe (Stream 1 ''b2'') ctxB, Emit (EvConnect ''b2'' ctxB),
      OnClose ctxB (Stream 1 ''b2''), ResponseStream ctxB (Stream 1 ''b2''),
      Emit (EvSubscribe ''a1'' ''room/1'' ctxA),
      Publish ''transmit::broadcast'' (Subscribe ''room/1'' ''a1''),
      Emit (EvSubscribe ''b2'' ''room/1'' ctxB),
      Publish ''transmit::broadcast'' (Subscribe ''room/1'' ''b2'')]"
  by (simp add: exampleRoom_def newTransmit_def exampleConfig_def createStream_def ctxA_def ctxB_def
      subscribeToChannel_def subscribeAllowed_def emit_def publish_def addChannelToStream_def
      getStreamByUid_def push_def emptyRegistry_def findByChannel_def Let_def setAdd_def)

lemma exampleRoom_fields:
  "bus exampleRoom = Some (Bus (Transport ''redis''))"
  "transportChannel (config exampleRoom) = ''transmit::broadcast''"
  "secureChannelStore exampleRoom = []"
  "secureChannelCallbacks exampleRoom = []"
  "interval exampleRoom = Some 30000"
  by (simp_all add: exampleRoom_def newTransmit_def exampleConfig_def createStream_def ctxA_def ctxB_def
      subscribeToChannel_def subscribeAllowed_def emit_def publish_def addChannelToStream_def
      getStreamByUid_def push_def emptyRegistry_def findByChannel_def Let_def setAdd_def)

lemma exampleRoom_subscribers:
  "findByChannel (storage exampleRoom) ''room/1'' = [Stream 0 ''a1'', Stream 1 ''b2'']"
  by (simp add: exampleRoom_storage findByChannel_def)

lemma exampleRoom_writes: "writesOf (effects exampleRoom) = []"
  by (simp add: exampleRoom_effects)

lemma exampleRoom_published:
  "publishedOf (effects exampleRoom) =
     [(''transmit::broadcast'', Subscribe ''room/1'' ''a1''),
      (''transmit::broadcast'', Subscribe ''room/1'' ''b2'')]"
  by (simp add: exampleRoom_effects)

lemma exampleSecured_store:
  "secureChannelStore exampleSecured = [''chat/:id'', ''admin/:area'']"
  "secureChannelCallbacks exampleSecured = [(''chat/:id'', refuse42), (''admin/:area'', failing)]"
  "storage exampleSecured = storage exampleRoom"
  "effects exampleSecured = effects exampleRoom"
  by (simp_all add: exampleSecured_def authorizeChannel_def add_def exampleRoom_fields)

lemma example_matches:
  "match [''chat/:id'', ''admin/:area''] ''chat/42'' = Some \<lparr>url = ''chat/:id'', params = [(''id'', ''42'')]\<rparr>"
  "match [''chat/:id'', ''admin/:area''] ''chat/7'' = Some \<lparr>url = ''chat/:id'', params = [(''id'', ''7'')]\<rparr>"
  "match [''chat/:id'', ''admin/:area''] ''admin/logs'' = Some \<lparr>url = ''admin/:area'', params = [(''area'', ''logs'')]\<rparr>"
  "match [''vault/:id''] ''vault/9'' = Some \<lparr>url = ''vault/:id'', params = [(''id'', ''9'')]\<rparr>"
  "match [] ''room/9'' = None"
  by (simp_all add: matchPattern_def)

lemma exampleRoom_clients: "getClients exampleRoom = [''a1'', ''b2'']"
  by (simp add: getClients_def getAllSubscribers_def exampleRoom_storage)

lemma exampleRoom_allocated: "allocated exampleRoom = 2"
  by (simp add: exampleRoom_def newTransmit_def exampleConfig_def createStream_def ctxA_def ctxB_def
      subscribeToChannel_def subscribeAllowed_def emit_def publish_def addChannelToStream_def
      getStreamByUid_def push_def emptyRegistry_def findByChannel_def Let_def setAdd_def)

section \<open>Local fan-out\<close>

text \<open>
  C1, as amended. \<^verbatim>\<open>broadcast(channel, payload)\<close> writes one message to each stream of
  \<open>findByChannel channel\<close> as it is at the call, in that order, and writes to no other
  stream; the message carries the payload when the payload is truthy and the empty object
  otherwise. \<^verbatim>\<open>broadcastExcept\<close> writes the payload as given to the same streams
  without those whose uid is the excluded uid, or is in the excluded list.
\<close>

theorem broadcast_writes_to_channel_subscribers:
  "writesOf (effects (broadcast st ch p)) =
     writesOf (effects st) @
     map (\<lambda>s. (s, \<lparr>channel = ch, payload = (if truthy p then p else JObj [])\<rparr>))
       (findByChannel (storage st) ch)
   \<and> writesOf (effects (broadcastExcept st ch p (SenderUid u))) =
     writesOf (effects st) @
     map (\<lambda>s. (s, \<lparr>channel = ch, payload = p\<rparr>))
       (filter (\<lambda>s. getUid s \<noteq> u) (findByChannel (storage st) ch))
   \<and> writesOf (effects (broadcastExcept st ch p (SenderUids us))) =
     writesOf (effects st) @
     map (\<lambda>s. (s, \<lparr>channel = ch, payload = p\<rparr>))
       (filter (\<lambda>s. getUid s \<notin> set us) (findByChannel (storage st) ch))"
proof -
  have b: "writesOf (effects (broadcast st ch p)) =
     writesOf (effects st) @
     map (\<lambda>s. (s, \<lparr>channel = ch, payload = (if truthy p then p else JObj [])\<rparr>))
       (findByChannel (storage st) ch)"
    by (simp add: broadcast_eq writesOf_append writesOf_writes writesOf_published)
  have e: "\<And>sd. writesOf (effects (broadcastExcept st ch p sd)) =
     writesOf (effects st) @
     map (\<lambda>s. (s, \<lparr>channel = ch, payload = p\<rparr>))
       (filter (\<lambda>s. \<not> isSender sd s) (findByChannel (storage st) ch))"
    by (simp add: broadcastExcept_def broadcastLocally_eq writesOf_append writesOf_writes)
  have one: "(\<lambda>s. \<not> isSender (SenderUid u) s) = (\<lambda>s. getUid s \<noteq> u)"
    by (auto simp add: isSender_def)
  have many: "(\<lambda>s. \<not> isSender (SenderUids us) s) = (\<lambda>s. getUid s \<notin> set us)"
    by (simp add: isSender_def)
  show ?thesis
    using b e [of "SenderUid u"] e [of "SenderUids us"] by (simp only: one many simp_thms)
qed

text \<open>
  C1 as stated fails for a falsy payload: with \<open>a1\<close> and \<open>b2\<close> subscribed to
  \<open>room/1\<close>, broadcasting the number 0 writes the empty object to both, and the
  payload 0 to neither.
\<close>

theorem broadcast_zero_payload_counterexample:
  "findByChannel (storage exampleRoom) ''room/1'' = [Stream 0 ''a1'', Stream 1 ''b2'']
   \<and> writesOf (effects (broadcast exampleRoom ''room/1'' (JNum 0))) =
       [(Stream 0 ''a1'', \<lparr>channel = ''room/1'', payload = JObj []\<rparr>),
        (Stream 1 ''b2'', \<lparr>channel = ''room/1'', payload = JObj []\<rparr>)]
   \<and> (Stream 0 ''a1'', \<lparr>channel = ''room/1'', payload = JNum 0\<rparr>)
       \<notin> set (writesOf (effects (broadcast exampleRoom ''room/1'' (JNum 0))))"
  by (simp add: broadcast_eq writesOf_append writesOf_writes writesOf_published
      exampleRoom_subscribers exampleRoom_writes)

section \<open>Messages from the bus\<close>

text \<open>
  C2. The bus handler dispatches on the tag: a Broadcast message writes the message to the
  local subscribers of the channel and does nothing else, a Subscribe message puts the
  repository in the state \<^verbatim>\<open>addChannelToStream(uid, channel)\<close> leaves, an Unsubscribe
  message in the state \<^verbatim>\<open>removeChannelFromStream(uid, channel)\<close> leaves. Whatever the
  message, the calls other than stream writes are the ones made before: nothing is
  published, no authorization callback is called, no response is marked.
\<close>

theorem bus_message_dispatch:
  "onBusMessage st (Broadcast ch p) =
     st\<lparr>effects := effects st @
          map (\<lambda>s. WriteMessage s \<lparr>channel = ch, payload = p\<rparr>) (findByChannel (storage st) ch)\<rparr>
   \<and> onBusMessage st (Subscribe ch uid) =
     st\<lparr>storage := snd (addChannelToStream (storage st) uid ch)\<rparr>
   \<and> onBusMessage st (Unsubscribe ch uid) =
     st\<lparr>storage := snd (removeChannelFromStream (storage st) uid ch)\<rparr>
   \<and> otherThanWrites (effects (onBusMessage st m)) = otherThanWrites (effects st)"
proof -
  have "otherThanWrites (effects (onBusMessage st m)) = otherThanWrites (effects st)"
    by (cases m)
      (simp_all add: onBusMessage_def broadcastLocally_eq otherThanWrites_append
        otherThanWrites_writes)
  then show ?thesis
    by (simp add: onBusMessage_def broadcastLocally_eq isSender_def)
qed

section \<open>Publishing on the bus\<close>

text \<open>
  C3. \<^verbatim>\<open>broadcastExcept\<close> publishes nothing on the bus: apart from the writes of its
  local fan-out it makes no call at all. With a bus, \<^verbatim>\<open>broadcast\<close> publishes one
  Broadcast message on the configured synchronization channel and does its local fan-out
  as well.
\<close>

theorem broadcastExcept_publishes_nothing:
  "publishedOf (effects (broadcastExcept st ch p sd)) = publishedOf (effects st)
   \<and> otherThanWrites (effects (broadcastExcept st ch p sd)) = otherThanWrites (effects st)
   \<and> (bus st \<noteq> None \<longrightarrow>
        publishedOf (effects (broadcast st ch p)) =
          publishedOf (effects st) @
          [(transportChannel (config st), Broadcast ch (if truthy p then p else JObj []))]
        \<and> writesOf (effects (broadcast st ch p)) =
          writesOf (effects st) @
          map (\<lambda>s. (s, \<lparr>channel = ch, payload = (if truthy p then p else JObj [])\<rparr>))
            (findByChannel (storage st) ch))"
proof -
  have a: "publishedOf (effects (broadcastExcept st ch p sd)) = publishedOf (effects st)"
    by (simp add: broadcastExcept_def broadcastLocally_eq publishedOf_append publishedOf_writes)
  have b: "otherThanWrites (effects (broadcastExcept st ch p sd)) = otherThanWrites (effects st)"
    by (simp add: broadcastExcept_def broadcastLocally_eq otherThanWrites_append
        otherThanWrites_writes)
  have c: "bus st \<noteq> None \<Longrightarrow>
        publishedOf (effects (broadcast st ch p)) =
          publishedOf (effects st) @
          [(transportChannel (config st), Broadcast ch (if truthy p then p else JObj []))]"
    by (auto simp add: broadcast_eq publishedOf_append publishedOf_writes published_def)
  have d: "writesOf (effects (broadcast st ch p)) =
          writesOf (effects st) @
          map (\<lambda>s. (s, \<lparr>channel = ch, payload = (if truthy p then p else JObj [])\<rparr>))
            (findByChannel (storage st) ch)"
    by (simp add: broadcast_eq writesOf_append writesOf_writes writesOf_published)
  from a b c d show ?thesis by blast
qed

theorem broadcastExcept_publishes_nothing_witness:
  "bus exampleRoom \<noteq> None
   \<and> publishedOf (effects (broadcastExcept exampleRoom ''room/1'' (JStr ''hi'') (SenderUid ''a1''))) =
       publishedOf (effects exampleRoom)
   \<and> writesOf (effects (broadcastExcept exampleRoom ''room/1'' (JStr ''hi'') (SenderUid ''a1''))) =
       [(Stream 1 ''b2'', \<lparr>channel = ''room/1'', payload = JStr ''hi''\<rparr>)]
   \<and> publishedOf (effects (broadcast exampleRoom ''room/1'' (JStr ''hi''))) =
       publishedOf (effects exampleRoom) @ [(''transmit::broadcast'', Broadcast ''room/1'' (JStr ''hi''))]
   \<and> writesOf (effects (broadcast exampleRoom ''room/1'' (JStr ''hi''))) =
       [(Stream 0 ''a1'', \<lparr>channel = ''room/1'', payload = JStr ''hi''\<rparr>),
        (Stream 1 ''b2'', \<lparr>channel = ''room/1'', payload = JStr ''hi''\<rparr>)]"
proof -
  have h: "bus exampleRoom \<noteq> None" by (simp add: exampleRoom_fields)
  have w: "writesOf (effects (broadcastExcept exampleRoom ''room/1'' (JStr ''hi'') (SenderUid ''a1''))) =
       [(Stream 1 ''b2'', \<lparr>channel = ''room/1'', payload = JStr ''hi''\<rparr>)]"
    by (simp add: broadcastExcept_def broadcastLocally_eq writesOf_append writesOf_writes
        exampleRoom_subscribers exampleRoom_writes isSender_def)
  show ?thesis
    using h w
      broadcastExcept_publishes_nothing
        [of exampleRoom "''room/1''" "JStr ''hi''" "SenderUid ''a1''"]
    by (simp add: exampleRoom_fields exampleRoom_subscribers exampleRoom_writes)
qed

section \<open>Subscribing\<close>

text \<open>
  C4. When no stream is registered for the uid, \<^verbatim>\<open>subscribe(uid, channel, context)\<close>
  returns false, whatever the channel and the context, and leaves the repository as it
  was: the index from clients to channels and the index from channels to streams are both
  unchanged.
\<close>

theorem subscribe_unregistered_uid:
  assumes "uid \<notin> set (getClients st)"
  shows "fst (subscribeToChannel st uid ch ctx) = False
         \<and> storage (snd (subscribeToChannel st uid ch ctx)) = storage st
         \<and> clientIndex (storage (snd (subscribeToChannel st uid ch ctx))) = clientIndex (storage st)
         \<and> channelIndex (storage (snd (subscribeToChannel st uid ch ctx))) = channelIndex (storage st)"
proof -
  have none: "getStreamByUid (storage st) uid = None"
    using assms by (rule getStreamByUid_unregistered)
  have add: "addChannelToStream (storage st) uid ch = (False, storage st)"
    by (simp add: addChannelToStream_def none)
  have "subscribeToChannel st uid ch ctx = (False, snd (subscribeToChannel st uid ch ctx))
        \<and> storage (snd (subscribeToChannel st uid ch ctx)) = storage st"
    by (simp add: subscribeToChannel_def subscribeAllowed_eq add Let_def
        split: option.split callback_result.split)
  then show ?thesis by (metis fst_conv)
qed

theorem subscribe_unregistered_uid_witness:
  "''zz'' \<notin> set (getClients exampleRoom)
   \<and> fst (subscribeToChannel exampleRoom ''zz'' ''room/1'' ctxA) = False
   \<and> storage (snd (subscribeToChannel exampleRoom ''zz'' ''room/1'' ctxA)) = storage exampleRoom
   \<and> ''zz'' \<notin> set (getClients exampleSecured)
   \<and> fst (subscribeToChannel exampleSecured ''zz'' ''chat/7'' ctxA) = False
   \<and> storage (snd (subscribeToChannel exampleSecured ''zz'' ''chat/7'' ctxA)) = storage exampleRoom"
proof -
  have h: "''zz'' \<notin> set (getClients exampleRoom)"
    by (simp add: exampleRoom_clients)
  have h': "''zz'' \<notin> set (getClients exampleSecured)"
    by (simp add: getClients_def exampleSecured_store exampleRoom_clients [unfolded getClients_def])
  show ?thesis
    using h h' subscribe_unregistered_uid [OF h, of "''room/1''" ctxA]
      subscribe_unregistered_uid [OF h', of "''chat/7''" ctxA]
    by (simp add: exampleSecured_store)
qed

text \<open>
  C5. On a channel that matches a secured pattern whose callback is stored: when the
  callback returns a falsy value the response is marked forbidden, and when the callback
  raises the response is marked as an internal error. In both cases the call returns false
  to its caller, and nothing but the trace changes: the callback's call and the mark on
  the response are added to it, and the repository is the one before the call.
\<close>

theorem subscribe_denied_or_failed:
  assumes "match (secureChannelStore st) ch = Some d"
    and "map_of (secureChannelCallbacks st) (url d) = Some callback"
  shows "(callback ctx (params d) = Returns v \<and> \<not> truthy v \<longrightarrow>
            subscribeToChannel st uid ch ctx =
              (False, st\<lparr>effects := effects st @
                         [CallbackCall (url d) ctx (params d), Forbidden ctx]\<rparr>))
         \<and> (callback ctx (params d) = Throws \<longrightarrow>
            subscribeToChannel st uid ch ctx =
              (False, st\<lparr>effects := effects st @
                         [CallbackCall (url d) ctx (params d), InternalServerError ctx]\<rparr>))"
  using assms by (simp add: subscribeToChannel_def Let_def)

theorem subscribe_denied_or_failed_witness:
  "match (secureChannelStore exampleSecured) ''chat/42'' =
     Some \<lparr>url = ''chat/:id'', params = [(''id'', ''42'')]\<rparr>
   \<and> map_of (secureChannelCallbacks exampleSecured) ''chat/:id'' = Some refuse42
   \<and> refuse42 ctxA [(''id'', ''42'')] = Returns (JBool False)
   \<and> subscribeToChannel exampleSecured ''a1'' ''chat/42'' ctxA =
       (False, exampleSecured\<lparr>effects := effects exampleSecured @
          [CallbackCall ''chat/:id'' ctxA [(''id'', ''42'')], Forbidden ctxA]\<rparr>)
   \<and> match (secureChannelStore exampleSecured) ''admin/logs'' =
     Some \<lparr>url = ''admin/:area'', params = [(''area'', ''logs'')]\<rparr>
   \<and> map_of (secureChannelCallbacks exampleSecured) ''admin/:area'' = Some failing
   \<and> failing ctxA [(''area'', ''logs'')] = Throws
   \<and> subscribeToChannel exampleSecured ''a1'' ''admin/logs'' ctxA =
       (False, exampleSecured\<lparr>effects := effects exampleSecured @
          [CallbackCall ''admin/:area'' ctxA [(''area'', ''logs'')], InternalServerError ctxA]\<rparr>)"
proof -
  have m1: "match (secureChannelStore exampleSecured) ''chat/42'' =
     Some \<lparr>url = ''chat/:id'', params = [(''id'', ''42'')]\<rparr>"
    by (simp only: exampleSecured_store example_matches)
  have c1: "map_of (secureChannelCallbacks exampleSecured)
      (url \<lparr>url = ''chat/:id'', params = [(''id'', ''42'')]\<rparr>) = Some refuse42"
    by (simp add: exampleSecured_store)
  have r1: "refuse42 ctxA [(''id'', ''42'')] = Returns (JBool False)"
    by (simp add: refuse42_def)
  have m2: "match (secureChannelStore exampleSecured) ''admin/logs'' =
     Some \<lparr>url = ''admin/:area'', params = [(''area'', ''logs'')]\<rparr>"
    by (simp only: exampleSecured_store example_matches)
  have c2: "map_of (secureChannelCallbacks exampleSecured)
      (url \<lparr>url = ''admin/:area'', params = [(''area'', ''logs'')]\<rparr>) = Some failing"
    by (simp add: exampleSecured_store)
  have r2: "failing ctxA [(''area'', ''logs'')] = Throws"
    by (simp add: failing_def)
  show ?thesis
    using m1 c1 r1 m2 c2 r2
      subscribe_denied_or_failed [OF m1 c1, of ctxA "JBool False" "''a1''"]
      subscribe_denied_or_failed [OF m2 c2, of ctxA "JBool False" "''a1''"]
    by simp
qed

text \<open>
  C6. On a channel that matches a secured pattern for which no callback is stored, the
  call returns false whatever the uid and the context, and the instance is left exactly
  as it was: no callback is called, no event is emitted, nothing is published, and the
  repository is unchanged.
\<close>

theorem subscribe_without_callback:
  assumes "match (secureChannelStore st) ch = Some d"
    and "map_of (secureChannelCallbacks st) (url d) = None"
  shows "subscribeToChannel st uid ch ctx = (False, st)"
  using assms by (simp add: subscribeToChannel_def)

theorem subscribe_without_callback_witness:
  "match (secureChannelStore exampleNoCallback) ''vault/9'' =
     Some \<lparr>url = ''vault/:id'', params = [(''id'', ''9'')]\<rparr>
   \<and> map_of (secureChannelCallbacks exampleNoCallback) ''vault/:id'' = None
   \<and> subscribeToChannel exampleNoCallback ''a1'' ''vault/9'' ctxA = (False, exampleNoCallback)"
proof -
  have m: "match (secureChannelStore exampleNoCallback) ''vault/9'' =
     Some \<lparr>url = ''vault/:id'', params = [(''id'', ''9'')]\<rparr>"
    by (simp add: exampleNoCallback_def matchPattern_def)
  have c: "map_of (secureChannelCallbacks exampleNoCallback)
      (url \<lparr>url = ''vault/:id'', params = [(''id'', ''9'')]\<rparr>) = None"
    by (simp add: exampleNoCallback_def exampleRoom_fields)
  show ?thesis
    using m c subscribe_without_callback [OF m c, of "''a1''" ctxA] by simp
qed

text \<open>
  C9. Once the channel is public or its callback has allowed the subscription,
  \<^verbatim>\<open>subscribe\<close> emits its \<open>subscribe\<close> event and, with a bus, publishes its
  Subscribe message, and only then asks the repository; \<^verbatim>\<open>unsubscribe\<close> does the
  same with its event and its Unsubscribe message. What is emitted and published does not
  depend on the repository's answer, which is what the call returns: for a uid with no
  registered stream the answer is false and the event and the message have gone out all
  the same.
\<close>

theorem side_effects_before_registry:
  "(match (secureChannelStore st) ch = None \<longrightarrow>
      subscribeToChannel st uid ch ctx =
        (fst (addChannelToStream (storage st) uid ch),
         st\<lparr>effects := effects st @
              Emit (EvSubscribe uid ch ctx) #
              (case bus st of
                 None \<Rightarrow> []
               | Some b \<Rightarrow> [Publish (transportChannel (config st)) (Subscribe ch uid)]),
            storage := snd (addChannelToStream (storage st) uid ch)\<rparr>))
   \<and> (match (secureChannelStore st) ch = Some d
       \<and> map_of (secureChannelCallbacks st) (url d) = Some callback
       \<and> callback ctx (params d) = Returns v \<and> truthy v \<longrightarrow>
      subscribeToChannel st uid ch ctx =
        (fst (addChannelToStream (storage st) uid ch),
         st\<lparr>effects := effects st @
              CallbackCall (url d) ctx (params d) #
              Emit (EvSubscribe uid ch ctx) #
              (case bus st of
                 None \<Rightarrow> []
               | Some b \<Rightarrow> [Publish (transportChannel (config st)) (Subscribe ch uid)]),
            storage := snd (addChannelToStream (storage st) uid ch)\<rparr>))
   \<and> unsubscribeFromChannel st uid ch ctx =
        (fst (removeChannelFromStream (storage st) uid ch),
         st\<lparr>effects := effects st @
              Emit (EvUnsubscribe uid ch ctx) #
              (case bus st of
                 None \<Rightarrow> []
               | Some b \<Rightarrow> [Publish (transportChannel (config st)) (Unsubscribe ch uid)]),
            storage := snd (removeChannelFromStream (storage st) uid ch)\<rparr>)
   \<and> (uid \<notin> set (getClients st) \<longrightarrow>
        fst (addChannelToStream (storage st) uid ch) = False
        \<and> fst (removeChannelFromStream (storage st) uid ch) = False)"
proof -
  have pub: "\<And>m. published st m =
      (case bus st of None \<Rightarrow> [] | Some b \<Rightarrow> [Publish (transportChannel (config st)) m])"
    by (simp add: published_def)
  have a: "match (secureChannelStore st) ch = None \<longrightarrow>
      subscribeToChannel st uid ch ctx =
        (fst (addChannelToStream (storage st) uid ch),
         st\<lparr>effects := effects st @
              Emit (EvSubscribe uid ch ctx) # published st (Subscribe ch uid),
            storage := snd (addChannelToStream (storage st) uid ch)\<rparr>)"
    by (simp add: subscribeToChannel_def subscribeAllowed_eq)
  have b: "match (secureChannelStore st) ch = Some d
       \<and> map_of (secureChannelCallbacks st) (url d) = Some callback
       \<and> callback ctx (params d) = Returns v \<and> truthy v \<longrightarrow>
      subscribeToChannel st uid ch ctx =
        (fst (addChannelToStream (storage st) uid ch),
         st\<lparr>effects := effects st @
              CallbackCall (url d) ctx (params d) #
              Emit (EvSubscribe uid ch ctx) # published st (Subscribe ch uid),
            storage := snd (addChannelToStream (storage st) uid ch)\<rparr>)"
    by (simp add: subscribeToChannel_def subscribeAllowed_eq Let_def published_def
        split: option.split)
  have c: "unsubscribeFromChannel st uid ch ctx =
        (fst (removeChannelFromStream (storage st) uid ch),
         st\<lparr>effects := effects st @
              Emit (EvUnsubscribe uid ch ctx) # published st (Unsubscribe ch uid),
            storage := snd (removeChannelFromStream (storage st) uid ch)\<rparr>)"
    by (rule unsubscribeFromChannel_eq)
  have d: "uid \<notin> set (getClients st) \<longrightarrow>
        fst (addChannelToStream (storage st) uid ch) = False
        \<and> fst (removeChannelFromStream (storage st) uid ch) = False"
    by (simp add: addChannelToStream_def removeChannelFromStream_def getStreamByUid_unregistered)
  from a b c d show ?thesis
    unfolding pub by blast
qed

theorem side_effects_before_registry_witness:
  "match (secureChannelStore exampleRoom) ''room/9'' = None
   \<and> ''zz'' \<notin> set (getClients exampleRoom)
   \<and> subscribeToChannel exampleRoom ''zz'' ''room/9'' ctxA =
       (False, exampleRoom\<lparr>effects := effects exampleRoom @
          [Emit (EvSubscribe ''zz'' ''room/9'' ctxA),
           Publish ''transmit::broadcast'' (Subscribe ''room/9'' ''zz'')]\<rparr>)
   \<and> unsubscribeFromChannel exampleRoom ''zz'' ''room/9'' ctxA =
       (False, exampleRoom\<lparr>effects := effects exampleRoom @
          [Emit (EvUnsubscribe ''zz'' ''room/9'' ctxA),
           Publish ''transmit::broadcast'' (Unsubscribe ''room/9'' ''zz'')]\<rparr>)
   \<and> match (secureChannelStore exampleSecured) ''chat/7'' =
       Some \<lparr>url = ''chat/:id'', params = [(''id'', ''7'')]\<rparr>
   \<and> map_of (secureChannelCallbacks exampleSecured) ''chat/:id'' = Some refuse42
   \<and> refuse42 ctxA [(''id'', ''7'')] = Returns (JBool True) \<and> truthy (JBool True)
   \<and> ''zz'' \<notin> set (getClients exampleSecured)
   \<and> fst (subscribeToChannel exampleSecured ''zz'' ''chat/7'' ctxA) = False
   \<and> effects (snd (subscribeToChannel exampleSecured ''zz'' ''chat/7'' ctxA)) =
       effects exampleSecured @
       [CallbackCall ''chat/:id'' ctxA [(''id'', ''7'')],
        Emit (EvSubscribe ''zz'' ''chat/7'' ctxA),
        Publish ''transmit::broadcast'' (Subscribe ''chat/7'' ''zz'')]"
proof -
  have m0: "match (secureChannelStore exampleRoom) ''room/9'' = None"
    by (simp add: exampleRoom_fields)
  have u0: "''zz'' \<notin> set (getClients exampleRoom)"
    by (simp add: exampleRoom_clients)
  have r0: "snd (addChannelToStream (storage exampleRoom) ''zz'' ''room/9'') = storage exampleRoom"
    "snd (removeChannelFromStream (storage exampleRoom) ''zz'' ''room/9'') = storage exampleRoom"
    by (simp_all add: addChannelToStream_def removeChannelFromStream_def
        getStreamByUid_unregistered [OF u0])
  have m1: "match (secureChannelStore exampleSecured) ''chat/7'' =
       Some \<lparr>url = ''chat/:id'', params = [(''id'', ''7'')]\<rparr>"
    by (simp only: exampleSecured_store example_matches)
  have c1: "map_of (secureChannelCallbacks exampleSecured) ''chat/:id'' = Some refuse42"
    by (simp add: exampleSecured_store)
  have v1: "refuse42 ctxA [(''id'', ''7'')] = Returns (JBool True)"
    by (simp add: refuse42_def)
  have u1: "''zz'' \<notin> set (getClients exampleSecured)"
    by (simp add: getClients_def exampleSecured_store exampleRoom_clients [unfolded getClients_def])
  have b1: "bus exampleSecured = bus exampleRoom"
    "transportChannel (config exampleSecured) = transportChannel (config exampleRoom)"
    by (simp_all add: exampleSecured_def authorizeChannel_def)
  show ?thesis
    using m0 u0 r0 m1 c1 v1 u1
      side_effects_before_registry [where st = exampleRoom and ch = "''room/9''"
        and uid = "''zz''" and ctx = ctxA]
      side_effects_before_registry [where st = exampleSecured and ch = "''chat/7''"
        and uid = "''zz''" and ctx = ctxA and callback = refuse42 and v = "JBool True"
        and d = "\<lparr>url = ''chat/:id'', params = [(''id'', ''7'')]\<rparr>"]
    by (simp add: exampleRoom_fields b1)
qed

section \<open>Connecting\<close>

text \<open>
  C7, as amended. When the request carries no uid, or carries the empty string, the call
  raises the validation error and leaves the instance, and so the repository, as it was.
  When the request carries a non-empty uid, a stream with that uid is built, pushed on the
  repository, where it is then found with no channel, and returned.
\<close>

theorem createStream_requires_truthy_uid:
  "(inputUid ctx = None \<or> inputUid ctx = Some [] \<longrightarrow>
      createStream st ctx = (Inl missingUid, st))
   \<and> (inputUid ctx = Some u \<and> u \<noteq> [] \<longrightarrow>
      fst (createStream st ctx) = Inr (Stream (allocated st) u)
      \<and> getUid (Stream (allocated st) u) = u
      \<and> storage (snd (createStream st ctx)) = push (storage st) (Stream (allocated st) u)
      \<and> (Stream (allocated st) u, []) \<in> set (getAllSubscribers (storage (snd (createStream st ctx))))
      \<and> u \<in> set (getClients (snd (createStream st ctx))))"
  by (auto simp add: createStream_def Let_def emit_def push_def getAllSubscribers_def
      getClients_def)

theorem createStream_requires_truthy_uid_witness:
  "inputUid \<lparr>ctxId = 3, inputUid = None\<rparr> = None
   \<and> createStream exampleRoom \<lparr>ctxId = 3, inputUid = None\<rparr> = (Inl missingUid, exampleRoom)
   \<and> inputUid \<lparr>ctxId = 3, inputUid = Some ''c3''\<rparr> = Some ''c3'' \<and> ''c3'' \<noteq> []
   \<and> fst (createStream exampleRoom \<lparr>ctxId = 3, inputUid = Some ''c3''\<rparr>) = Inr (Stream 2 ''c3'')
   \<and> getClients (snd (createStream exampleRoom \<lparr>ctxId = 3, inputUid = Some ''c3''\<rparr>)) =
       [''a1'', ''b2'', ''c3'']"
proof -
  have g: "getClients (snd (createStream exampleRoom \<lparr>ctxId = 3, inputUid = Some ''c3''\<rparr>)) =
       [''a1'', ''b2'', ''c3'']"
    by (simp add: createStream_def Let_def emit_def push_def getAllSubscribers_def getClients_def
        exampleRoom_storage)
  show ?thesis
    using g
      createStream_requires_truthy_uid [of "\<lparr>ctxId = 3, inputUid = None\<rparr>" exampleRoom "''c3''"]
      createStream_requires_truthy_uid [of "\<lparr>ctxId = 3, inputUid = Some ''c3''\<rparr>" exampleRoom "''c3''"]
    by (simp add: exampleRoom_allocated)
qed

text \<open>
  C7 as stated fails for a request that carries a uid which is the empty string: the test
  \<^verbatim>\<open>!request.input('uid')\<close> holds for it, so the call raises and no stream is
  registered.
\<close>

theorem createStream_empty_uid_counterexample:
  "inputUid \<lparr>ctxId = 3, inputUid = Some ''''\<rparr> = Some ''''
   \<and> createStream exampleRoom \<lparr>ctxId = 3, inputUid = Some ''''\<rparr> = (Inl missingUid, exampleRoom)
   \<and> getClients (snd (createStream exampleRoom \<lparr>ctxId = 3, inputUid = Some ''''\<rparr>)) =
       [''a1'', ''b2'']"
  by (simp add: createStream_def exampleRoom_clients)

section \<open>The heartbeat\<close>

text \<open>
  C8. \<^verbatim>\<open>#ping\<close> writes to every stream of \<open>getAllSubscribers\<close>, whatever its
  channels, one message whose channel is \<open>$$transmit/ping\<close> and whose payload is the
  empty object, and does nothing else. When a timer is set, its tick is that call. When no
  ping interval is configured the constructor sets no timer, so there is no tick; when a
  non-zero number of milliseconds or a non-empty duration string is configured the timer
  is set with it.
\<close>

theorem heartbeat_pings_every_stream:
  "ping st =
     st\<lparr>effects := effects st @
          map (\<lambda>e. WriteMessage (fst e) \<lparr>channel = ''$$transmit/ping'', payload = JObj []\<rparr>)
            (getAllSubscribers (storage st))\<rparr>
   \<and> writesOf (effects (ping st)) =
     writesOf (effects st) @
     map (\<lambda>e. (fst e, \<lparr>channel = ''$$transmit/ping'', payload = JObj []\<rparr>))
       (getAllSubscribers (storage st))
   \<and> (interval st \<noteq> None \<longrightarrow> heartbeat st = Some (ping st))
   \<and> (pingInterval cfg = None \<longrightarrow>
        interval (newTransmit parseMs cfg tr) = None
        \<and> heartbeat (newTransmit parseMs cfg tr) = None
        \<and> effects (newTransmit parseMs cfg tr) =
            (case tr of None \<Rightarrow> [] | Some t \<Rightarrow> [BusSubscribe (transportChannel cfg)]))
   \<and> (pingInterval cfg = Some (Millis n) \<and> n \<noteq> 0 \<longrightarrow>
        interval (newTransmit parseMs cfg tr) = Some n)
   \<and> (pingInterval cfg = Some (DurationString s) \<and> s \<noteq> [] \<longrightarrow>
        interval (newTransmit parseMs cfg tr) = Some (parseMs s))"
proof -
  have a: "ping st =
     st\<lparr>effects := effects st @
          map (\<lambda>e. WriteMessage (fst e) \<lparr>channel = ''$$transmit/ping'', payload = JObj []\<rparr>)
            (getAllSubscribers (storage st))\<rparr>"
    by (simp add: ping_eq pingMessage_def)
  have b: "writesOf (effects (ping st)) =
     writesOf (effects st) @
     map (\<lambda>e. (fst e, \<lparr>channel = ''$$transmit/ping'', payload = JObj []\<rparr>))
       (getAllSubscribers (storage st))"
    by (simp add: ping_eq pingMessage_def writesOf_append writesOf_pings)
  have c: "interval st \<noteq> None \<longrightarrow> heartbeat st = Some (ping st)"
    by (auto simp add: heartbeat_def)
  have d: "pingInterval cfg = None \<longrightarrow>
        interval (newTransmit parseMs cfg tr) = None
        \<and> heartbeat (newTransmit parseMs cfg tr) = None
        \<and> effects (newTransmit parseMs cfg tr) =
            (case tr of None \<Rightarrow> [] | Some t \<Rightarrow> [BusSubscribe (transportChannel cfg)])"
    by (simp add: newTransmit_def heartbeat_def Let_def split: option.split)
  have e: "pingInterval cfg = Some (Millis n) \<and> n \<noteq> 0 \<longrightarrow>
        interval (newTransmit parseMs cfg tr) = Some n"
    by (simp add: newTransmit_def Let_def)
  have f: "pingInterval cfg = Some (DurationString s) \<and> s \<noteq> [] \<longrightarrow>
        interval (newTransmit parseMs cfg tr) = Some (parseMs s)"
    by (simp add: newTransmit_def Let_def)
  from a b c d e f show ?thesis by blast
qed

theorem heartbeat_pings_every_stream_witness:
  "interval exampleRoom \<noteq> None
   \<and> getAllSubscribers (storage (snd (createStream exampleRoom \<lparr>ctxId = 3, inputUid = Some ''c3''\<rparr>))) =
       [(Stream 0 ''a1'', [''room/1'']), (Stream 1 ''b2'', [''room/1'']), (Stream 2 ''c3'', [])]
   \<and> writesOf (effects (ping (snd (createStream exampleRoom \<lparr>ctxId = 3, inputUid = Some ''c3''\<rparr>)))) =
       [(Stream 0 ''a1'', \<lparr>channel = ''$$transmit/ping'', payload = JObj []\<rparr>),
        (Stream 1 ''b2'', \<lparr>channel = ''$$transmit/ping'', payload = JObj []\<rparr>),
        (Stream 2 ''c3'', \<lparr>channel = ''$$transmit/ping'', payload = JObj []\<rparr>)]
   \<and> heartbeat exampleRoom = Some (ping exampleRoom)
   \<and> pingInterval \<lparr>pingInterval = None, transportChannel = ''sync''\<rparr> = None
   \<and> interval (newTransmit (\<lambda>s. 1000) \<lparr>pingInterval = None, transportChannel = ''sync''\<rparr> None) = None
   \<and> heartbeat (newTransmit (\<lambda>s. 1000) \<lparr>pingInterval = None, transportChannel = ''sync''\<rparr> None) = None
   \<and> pingInterval exampleConfig = Some (Millis 30000)
   \<and> interval (newTransmit (\<lambda>s. 1000) exampleConfig None) = Some 30000
   \<and> pingInterval \<lparr>pingInterval = Some (DurationString ''1s''), transportChannel = ''sync''\<rparr> =
       Some (DurationString ''1s'')
   \<and> interval (newTransmit (\<lambda>s. 1000)
         \<lparr>pingInterval = Some (DurationString ''1s''), transportChannel = ''sync''\<rparr> None) =
       Some 1000"
proof -
  let ?st = "snd (createStream exampleRoom \<lparr>ctxId = 3, inputUid = Some ''c3''\<rparr>)"
  have s: "getAllSubscribers (storage ?st) =
       [(Stream 0 ''a1'', [''room/1'']), (Stream 1 ''b2'', [''room/1'']), (Stream 2 ''c3'', [])]"
    by (simp add: createStream_def Let_def emit_def push_def getAllSubscribers_def
        exampleRoom_storage exampleRoom_allocated)
  have w: "writesOf (effects ?st) = []"
    by (simp add: createStream_def Let_def emit_def exampleRoom_effects)
  have i: "interval exampleRoom \<noteq> None"
    by (simp add: exampleRoom_fields)
  have p: "pingInterval exampleConfig = Some (Millis 30000)"
    by (simp add: exampleConfig_def)
  show ?thesis
    using s w i p
      heartbeat_pings_every_stream [where st = ?st
        and cfg = "\<lparr>pingInterval = None, transportChannel = ''sync''\<rparr>"
        and parseMs = "\<lambda>s. 1000" and tr = None and n = 30000]
      heartbeat_pings_every_stream [where st = exampleRoom and cfg = exampleConfig
        and parseMs = "\<lambda>s. 1000" and tr = None and n = 30000]
      heartbeat_pings_every_stream [where st = exampleRoom
        and cfg = "\<lparr>pingInterval = Some (DurationString ''1s''), transportChannel = ''sync''\<rparr>"
        and parseMs = "\<lambda>s. 1000" and tr = None and s = "''1s''"]
    by (simp add: writesOf_append)
qed

section \<open>Falsy payloads\<close>

text \<open>
  C10. \<^verbatim>\<open>broadcast\<close> with a falsy payload (an omitted one, null, false, 0, the empty
  string) behaves exactly as with the empty object: each subscriber of the channel is
  written the empty object, and the Broadcast message published on the bus, when there is
  a bus, carries the empty object.
\<close>

theorem broadcast_replaces_falsy_payload:
  assumes "\<not> truthy p"
  shows "broadcast st ch p = broadcast st ch (JObj [])
     \<and> writesOf (effects (broadcast st ch p)) =
         writesOf (effects st) @
         map (\<lambda>s. (s, \<lparr>channel = ch, payload = JObj []\<rparr>)) (findByChannel (storage st) ch)
     \<and> publishedOf (effects (broadcast st ch p)) =
         publishedOf (effects st) @
         (case bus st of
            None \<Rightarrow> []
          | Some b \<Rightarrow> [(transportChannel (config st), Broadcast ch (JObj []))])"
proof -
  have same: "broadcast st ch p = broadcast st ch (JObj [])"
    using assms by (simp add: broadcast_def)
  have w: "writesOf (effects (broadcast st ch (JObj []))) =
         writesOf (effects st) @
         map (\<lambda>s. (s, \<lparr>channel = ch, payload = JObj []\<rparr>)) (findByChannel (storage st) ch)"
    by (simp add: broadcast_eq writesOf_append writesOf_writes writesOf_published)
  have pb: "publishedOf (effects (broadcast st ch (JObj []))) =
         publishedOf (effects st) @
         (case bus st of
            None \<Rightarrow> []
          | Some b \<Rightarrow> [(transportChannel (config st), Broadcast ch (JObj []))])"
    by (simp add: broadcast_eq publishedOf_append publishedOf_writes published_def
        split: option.split)
  from same w pb show ?thesis by simp
qed

theorem broadcast_replaces_falsy_payload_witness:
  "\<not> truthy (JNum 0) \<and> \<not> truthy (JStr []) \<and> \<not> truthy (JBool False) \<and> \<not> truthy JNull
   \<and> \<not> truthy JUndefined
   \<and> writesOf (effects (broadcast exampleRoom ''room/1'' (JNum 0))) =
       [(Stream 0 ''a1'', \<lparr>channel = ''room/1'', payload = JObj []\<rparr>),
        (Stream 1 ''b2'', \<lparr>channel = ''room/1'', payload = JObj []\<rparr>)]
   \<and> writesOf (effects (broadcast exampleRoom ''room/1'' (JStr []))) =
       [(Stream 0 ''a1'', \<lparr>channel = ''room/1'', payload = JObj []\<rparr>),
        (Stream 1 ''b2'', \<lparr>channel = ''room/1'', payload = JObj []\<rparr>)]
   \<and> writesOf (effects (broadcast exampleRoom ''room/1'' (JBool False))) =
       [(Stream 0 ''a1'', \<lparr>channel = ''room/1'', payload = JObj []\<rparr>),
        (Stream 1 ''b2'', \<lparr>channel = ''room/1'', payload = JObj []\<rparr>)]
   \<and> writesOf (effects (broadcast exampleRoom ''room/1'' JNull)) =
       [(Stream 0 ''a1'', \<lparr>channel = ''room/1'', payload = JObj []\<rparr>),
        (Stream 1 ''b2'', \<lparr>channel = ''room/1'', payload = JObj []\<rparr>)]
   \<and> writesOf (effects (broadcast exampleRoom ''room/1'' JUndefined)) =
       [(Stream 0 ''a1'', \<lparr>channel = ''room/1'', payload = JObj []\<rparr>),
        (Stream 1 ''b2'', \<lparr>channel = ''room/1'', payload = JObj []\<rparr>)]
   \<and> publishedOf (effects (broadcast exampleRoom ''room/1'' (JNum 0))) =
       publishedOf (effects exampleRoom) @
       [(''transmit::broadcast'', Broadcast ''room/1'' (JObj []))]"
proof -
  have f: "\<not> truthy (JNum 0)" "\<not> truthy (JStr [])" "\<not> truthy (JBool False)"
    "\<not> truthy JNull" "\<not> truthy JUndefined"
    by simp_all
  show ?thesis
    using f
      broadcast_replaces_falsy_payload [OF f(1), of exampleRoom "''room/1''", THEN conjunct2]
      broadcast_replaces_falsy_payload [OF f(2), of exampleRoom "''room/1''", THEN conjunct2]
      broadcast_replaces_falsy_payload [OF f(3), of exampleRoom "''room/1''", THEN conjunct2]
      broadcast_replaces_falsy_payload [OF f(4), of exampleRoom "''room/1''", THEN conjunct2]
      broadcast_replaces_falsy_payload [OF f(5), of exampleRoom "''room/1''", THEN conjunct2]
    by (simp add: exampleRoom_subscribers exampleRoom_writes exampleRoom_fields)
qed

end
